theory Spec2Isabelle
  imports Complex_Main "HOL-Library.Sublist" "HOL-Library.AList"
begin

section \<open>The API test script \<open>api-test.py\<close>\<close>

text \<open>
  The script sends nine fixed requests to one HTTP endpoint and judges each response.
  The model follows the source function by function. What the script reads from outside
  is an argument of the model: the process environment (\<open>os.environ\<close>), the parsed
  command line, and the transport, a function from the request sent to either the
  response received or the exception \<open>requests\<close> raised. A run sends nine pairwise
  different requests, so a function of the request describes any sequence of outcomes.

  Console output is kept as a list of events: the calls of \<open>print_result\<close>, the
  configuration error line and the summary. The section banners and the dumps made under
  \<open>--verbose\<close> are left out: they read values only and no branch depends on them, which
  is also why the model's functions have no \<open>verbose\<close> argument.
\<close>

subsection \<open>JSON values and the Python operations the script applies to them\<close>

text \<open>
  What \<open>response.json()\<close> returns: \<open>None\<close>, a bool, an int, a float, a str, a list or a
  dict (its items in insertion order). The number carried by \<open>JInt\<close> and \<open>JFloat\<close> is
  never inspected by the script.
\<close>

datatype json =
    JNull
  | JBool bool
  | JInt int
  | JFloat rat
  | JStr string
  | JArr "json list"
  | JObj "(string \<times> json) list"

text \<open>
  The exceptions, all of them subclasses of \<open>Exception\<close>. \<open>Timeout\<close> and
  \<open>RequestException\<close> stand for \<open>requests.exceptions.Timeout\<close> and for every other
  \<open>requests.exceptions.RequestException\<close> (connection refused, DNS failure, ...).
  \<open>response.json()\<close> raises \<open>requests.exceptions.JSONDecodeError\<close>, which is both a
  \<open>RequestException\<close> and a \<open>json.JSONDecodeError\<close>, from requests 2.27 on
  (\<open>RequestsJSONDecodeError\<close>), and a plain \<open>json.JSONDecodeError\<close> before
  (\<open>JSONDecodeError\<close>). The string is the message, what \<open>str(e)\<close> gives.
\<close>

datatype exn =
    Timeout string
  | RequestException string
  | RequestsJSONDecodeError string
  | JSONDecodeError string
  | TypeError
  | KeyError string
  | AttributeError
  | EnvironmentError string
  | OtherException string

fun is_Timeout :: "exn \<Rightarrow> bool" where
  "is_Timeout (Timeout m) = True"
| "is_Timeout e = False"

fun is_RequestException :: "exn \<Rightarrow> bool" where
  "is_RequestException (Timeout m) = True"
| "is_RequestException (RequestException m) = True"
| "is_RequestException (RequestsJSONDecodeError m) = True"
| "is_RequestException e = False"

fun is_JSONDecodeError :: "exn \<Rightarrow> bool" where
  "is_JSONDecodeError (RequestsJSONDecodeError m) = True"
| "is_JSONDecodeError (JSONDecodeError m) = True"
| "is_JSONDecodeError e = False"

fun is_EnvironmentError :: "exn \<Rightarrow> bool" where
  "is_EnvironmentError (EnvironmentError m) = True"
| "is_EnvironmentError e = False"

text \<open>Sequencing of statements that may raise: the first exception ends the block.\<close>

definition exn_bind :: "exn + 'a \<Rightarrow> ('a \<Rightarrow> exn + 'b) \<Rightarrow> exn + 'b" where
  "exn_bind m f = (case m of Inl e \<Rightarrow> Inl e | Inr x \<Rightarrow> f x)"

text \<open>Python's \<open>a and b\<close> on bools: \<open>b\<close> is evaluated only when \<open>a\<close> is true.\<close>

definition py_and :: "exn + bool \<Rightarrow> exn + bool \<Rightarrow> exn + bool" where
  "py_and a b = exn_bind a (\<lambda>x. if x then b else Inr False)"

text \<open>\<open>sub in s\<close> for two strings: \<open>sub\<close> occurs in \<open>s\<close> as a contiguous block.\<close>

fun str_contains :: "string \<Rightarrow> string \<Rightarrow> bool" where
  "str_contains sub [] = (sub = [])"
| "str_contains sub (c # cs) = (prefix sub (c # cs) \<or> str_contains sub cs)"

text \<open>
  \<open>key in data\<close> for a string \<open>key\<close>: a substring test on a str, an element test on a
  list, a key test on a dict, and a \<open>TypeError\<close> on \<open>None\<close>, bools and numbers.
\<close>

fun py_in :: "string \<Rightarrow> json \<Rightarrow> exn + bool" where
  "py_in k (JStr s) = Inr (str_contains k s)"
| "py_in k (JArr xs) = Inr (JStr k \<in> set xs)"
| "py_in k (JObj kvs) = Inr (k \<in> set (map fst kvs))"
| "py_in k v = Inl TypeError"

text \<open>
  \<open>data[key]\<close> for a string \<open>key\<close>: the value or a \<open>KeyError\<close> on a dict, and a
  \<open>TypeError\<close> on everything else (a list and a str take integer indices only).
\<close>

fun py_getitem :: "json \<Rightarrow> string \<Rightarrow> exn + json" where
  "py_getitem (JObj kvs) k = (case map_of kvs k of Some v \<Rightarrow> Inr v | None \<Rightarrow> Inl (KeyError k))"
| "py_getitem v k = Inl TypeError"

text \<open>\<open>data.get(key, default)\<close>: only a dict has the method.\<close>

fun py_get :: "json \<Rightarrow> string \<Rightarrow> json \<Rightarrow> exn + json" where
  "py_get (JObj kvs) k d = Inr (case map_of kvs k of Some v \<Rightarrow> v | None \<Rightarrow> d)"
| "py_get v k d = Inl AttributeError"

text \<open>
  \<open>v[:n]\<close>: the first \<open>n\<close> items of a str or a list. A dict raises (a \<open>TypeError\<close>
  up to Python 3.11, a \<open>KeyError\<close> from 3.12 on: an exception that no handler of the
  script's scenario functions names, either way); \<open>None\<close>, bools and numbers raise
  \<open>TypeError\<close>.
\<close>

fun py_slice_to :: "nat \<Rightarrow> json \<Rightarrow> exn + json" where
  "py_slice_to n (JStr s) = Inr (JStr (take n s))"
| "py_slice_to n (JArr xs) = Inr (JArr (take n xs))"
| "py_slice_to n v = Inl TypeError"

subsection \<open>Requests, responses, the transport\<close>

datatype body = NoBody | RawData string | JsonBody json

record request =
  req_verb :: string
  req_url :: string
  req_headers :: "(string \<times> string) list"
  req_body :: body
  req_timeout :: nat

text \<open>
  Of a response the script reads \<open>status_code\<close>, \<open>json()\<close> (the parsed body, or the
  decode error raised) and \<open>headers.get(name)\<close>.
\<close>

record response =
  status_code :: int
  resp_json :: "exn + json"
  resp_headers :: "string \<Rightarrow> string option"

type_synonym transport = "request \<Rightarrow> exn + response"

definition requests_post ::
  "transport \<Rightarrow> string \<Rightarrow> (string \<times> string) list \<Rightarrow> body \<Rightarrow> nat \<Rightarrow> exn + response" where
  "requests_post net url headers b t =
     net \<lparr>req_verb = ''POST'', req_url = url, req_headers = headers, req_body = b,
          req_timeout = t\<rparr>"

definition requests_options ::
  "transport \<Rightarrow> string \<Rightarrow> (string \<times> string) list \<Rightarrow> nat \<Rightarrow> exn + response" where
  "requests_options net url headers t =
     net \<lparr>req_verb = ''OPTIONS'', req_url = url, req_headers = headers, req_body = NoBody,
          req_timeout = t\<rparr>"

text \<open>\<open>headers.get(name, default)\<close> on a response.\<close>

definition headers_get :: "response \<Rightarrow> string \<Rightarrow> string \<Rightarrow> string" where
  "headers_get r k d = (case resp_headers r k of Some v \<Rightarrow> v | None \<Rightarrow> d)"

subsection \<open>Console output\<close>

text \<open>
  A detail string is kept as the pieces of its f-string: literal text, an interpolated
  str, int, JSON value or exception (Python's \<open>str()\<close> of them, which never raises).
\<close>

datatype frag = Lit string | StrF string | IntF int | JsonF json | ExnF exn

type_synonym detail = "frag list"

datatype out =
    Result string bool detail
  | ConfigError exn
  | Summary nat nat nat
  | FailedTest string
  | AllPassed

definition print_result :: "string \<Rightarrow> bool \<Rightarrow> detail \<Rightarrow> out list" where
  "print_result test_name p details = [Result test_name p details]"

subsection \<open>Configuration\<close>

type_synonym environ = "string \<Rightarrow> string option"

definition newline :: string where
  "newline = [CHR 0x0A]"

text \<open>\<open>if not api_key\<close> holds for \<open>None\<close> and for the empty string.\<close>

definition get_api_key :: "environ \<Rightarrow> exn + string" where
  "get_api_key environ =
     (case environ ''API_KEY'' of
        None \<Rightarrow> Inl (EnvironmentError (''API_KEY environment variable is not set.'' @ newline @
                   ''Set it with: export API_KEY=your_api_key''))
      | Some api_key \<Rightarrow>
          if api_key = [] then
            Inl (EnvironmentError (''API_KEY environment variable is not set.'' @ newline @
                   ''Set it with: export API_KEY=your_api_key''))
          else Inr api_key)"

definition get_api_url :: "environ \<Rightarrow> string \<Rightarrow> exn + string" where
  "get_api_url environ env =
     (if env = ''prod'' then
        (case environ ''PROD_API_URL'' of
           None \<Rightarrow> Inl (EnvironmentError (''PROD_API_URL environment variable is not set.'' @
                     newline @ ''Set it with: export PROD_API_URL=your_prod_url''))
         | Some url \<Rightarrow>
             if url = [] then
               Inl (EnvironmentError (''PROD_API_URL environment variable is not set.'' @
                     newline @ ''Set it with: export PROD_API_URL=your_prod_url''))
             else Inr url)
      else
        (case environ ''TEST_API_URL'' of
           None \<Rightarrow> Inl (EnvironmentError (''TEST_API_URL environment variable is not set.'' @
                     newline @ ''Set it with: export TEST_API_URL=your_test_url''))
         | Some url \<Rightarrow>
             if url = [] then
               Inl (EnvironmentError (''TEST_API_URL environment variable is not set.'' @
                     newline @ ''Set it with: export TEST_API_URL=your_test_url''))
             else Inr url))"

subsection \<open>The request builder\<close>

text \<open>
  \<open>headers.update(headers_override)\<close>: each item of the override replaces the value of
  its key where the key is present and is added at the end otherwise. The update is made
  only when the override is neither \<open>None\<close> nor empty.
\<close>

definition dict_update ::
  "(string \<times> string) list \<Rightarrow> (string \<times> string) list \<Rightarrow> (string \<times> string) list" where
  "dict_update d ov = fold (\<lambda>(k, v) acc. AList.update k v acc) ov d"

definition make_request_headers ::
  "string \<Rightarrow> (string \<times> string) list option \<Rightarrow> (string \<times> string) list" where
  "make_request_headers api_key headers_override =
     (let headers = [(''Content-Type'', ''application/json''), (''X-Api-Key'', api_key)]
      in case headers_override of
           None \<Rightarrow> headers
         | Some ov \<Rightarrow> if ov \<noteq> [] then dict_update headers ov else headers)"

definition make_request ::
  "transport \<Rightarrow> string \<Rightarrow> string \<Rightarrow> json \<Rightarrow> (string \<times> string) list option \<Rightarrow> exn + response" where
  "make_request net url api_key payload headers_override =
     requests_post net url (make_request_headers api_key headers_override) (JsonBody payload) 30"

subsection \<open>The nine scenarios\<close>

text \<open>
  A scenario function prints and then returns a bool, or raises: the model returns the
  events printed and either the bool or the exception that leaves the function. The
  \<open>try\<close> block is a computation that may raise; the \<open>except\<close> clauses are tried in the
  source's order on what it raised, and an exception that none of them names leaves the
  function.
\<close>

type_synonym scenario = "transport \<Rightarrow> string \<Rightarrow> string \<Rightarrow> out list \<times> (exn + bool)"

definition test_success_request :: scenario where
  "test_success_request net url api_key =
     (let payload = JObj [(''threadId'', JStr ''test-thread-001''),
                          (''messages'', JArr [JObj [(''role'', JStr ''user''),
                             (''content'', JStr ''Say 'Hello test' and nothing else.'')]])]
      in case
           exn_bind (make_request net url api_key payload None) (\<lambda>response.
             if status_code response = 200 then
               exn_bind (resp_json response) (\<lambda>data.
                 exn_bind (py_and (py_in ''assistant'' data)
                             (exn_bind (py_getitem data ''assistant'') (py_in ''content'')))
                   (\<lambda>found.
                     if found then
                       exn_bind (py_getitem data ''assistant'') (\<lambda>assistant.
                         exn_bind (py_getitem assistant ''content'') (\<lambda>content.
                           exn_bind (py_slice_to 50 content) (\<lambda>excerpt.
                             Inr (print_result ''Valid Request'' True
                                    [Lit ''Got response: '', JsonF excerpt, Lit ''...''],
                                  True))))
                     else
                       Inr (print_result ''Valid Request'' False
                              [Lit ''Missing 'assistant.content' in response''], False)))
             else
               Inr (print_result ''Valid Request'' False
                      [Lit ''Expected 200, got '', IntF (status_code response)], False))
         of
           Inr (printed, res) \<Rightarrow> (printed, Inr res)
         | Inl e \<Rightarrow>
             if is_Timeout e then
               (print_result ''Valid Request'' False [Lit ''Request timed out''], Inr False)
             else if is_RequestException e then
               (print_result ''Valid Request'' False [Lit ''Request failed: '', ExnF e],
                Inr False)
             else if is_JSONDecodeError e then
               (print_result ''Valid Request'' False [Lit ''Invalid JSON response: '', ExnF e],
                Inr False)
             else ([], Inl e))"

definition test_missing_body :: scenario where
  "test_missing_body net url api_key =
     (let headers = [(''Content-Type'', ''application/json''), (''X-Api-Key'', api_key)]
      in case
           exn_bind (requests_post net url headers (RawData []) 30) (\<lambda>response.
             if status_code response = 400 then
               exn_bind (resp_json response) (\<lambda>data.
                 exn_bind (py_in ''error'' data) (\<lambda>found.
                   if found then
                     exn_bind (py_getitem data ''error'') (\<lambda>err.
                       Inr (print_result ''Missing Body'' True
                              [Lit ''Got expected error: '', JsonF err], True))
                   else
                     Inr (print_result ''Missing Body'' False
                            [Lit ''Expected error message in response''], False)))
             else
               Inr (print_result ''Missing Body'' False
                      [Lit ''Expected 400, got '', IntF (status_code response)], False))
         of
           Inr (printed, res) \<Rightarrow> (printed, Inr res)
         | Inl e \<Rightarrow>
             if is_RequestException e then
               (print_result ''Missing Body'' False [Lit ''Request failed: '', ExnF e],
                Inr False)
             else ([], Inl e))"

definition test_invalid_json :: scenario where
  "test_invalid_json net url api_key =
     (let headers = [(''Content-Type'', ''application/json''), (''X-Api-Key'', api_key)]
      in case
           exn_bind (requests_post net url headers (RawData ''{invalid json'') 30) (\<lambda>response.
             if status_code response = 400 then
               exn_bind (resp_json response) (\<lambda>data.
                 exn_bind (py_and (py_in ''error'' data)
                             (exn_bind (py_getitem data ''error'') (py_in ''Invalid JSON'')))
                   (\<lambda>found.
                     if found then
                       exn_bind (py_getitem data ''error'') (\<lambda>err.
                         Inr (print_result ''Invalid JSON'' True
                                [Lit ''Got expected error: '', JsonF err], True))
                     else
                       exn_bind (py_get data ''error'' (JStr ''unknown'')) (\<lambda>err.
                         Inr (print_result ''Invalid JSON'' True
                                [Lit ''Got 400 with error: '', JsonF err], True))))
             else
               Inr (print_result ''Invalid JSON'' False
                      [Lit ''Expected 400, got '', IntF (status_code response)], False))
         of
           Inr (printed, res) \<Rightarrow> (printed, Inr res)
         | Inl e \<Rightarrow>
             if is_RequestException e then
               (print_result ''Invalid JSON'' False [Lit ''Request failed: '', ExnF e],
                Inr False)
             else ([], Inl e))"

definition test_missing_thread_id :: scenario where
  "test_missing_thread_id net url api_key =
     (let payload = JObj [(''messages'', JArr [JObj [(''role'', JStr ''user''),
                             (''content'', JStr ''Hello'')]])]
      in case
           exn_bind (make_request net url api_key payload None) (\<lambda>response.
             if status_code response = 400 then
               exn_bind (resp_json response) (\<lambda>data.
                 exn_bind (py_and (py_in ''error'' data)
                             (exn_bind (py_getitem data ''error'') (py_in ''threadId'')))
                   (\<lambda>found.
                     if found then
                       exn_bind (py_getitem data ''error'') (\<lambda>err.
                         Inr (print_result ''Missing threadId'' True
                                [Lit ''Got expected error: '', JsonF err], True))
                     else
                       exn_bind (py_get data ''error'' (JStr ''unknown'')) (\<lambda>err.
                         Inr (print_result ''Missing threadId'' False
                                [Lit ''Unexpected error: '', JsonF err], False))))
             else
               Inr (print_result ''Missing threadId'' False
                      [Lit ''Expected 400, got '', IntF (status_code response)], False))
         of
           Inr (printed, res) \<Rightarrow> (printed, Inr res)
         | Inl e \<Rightarrow>
             if is_RequestException e then
               (print_result ''Missing threadId'' False [Lit ''Request failed: '', ExnF e],
                Inr False)
             else ([], Inl e))"

definition test_messages_not_array :: scenario where
  "test_messages_not_array net url api_key =
     (let payload = JObj [(''threadId'', JStr ''test-thread''),
                          (''messages'', JStr ''not an array'')]
      in case
           exn_bind (make_request net url api_key payload None) (\<lambda>response.
             if status_code response = 400 then
               exn_bind (resp_json response) (\<lambda>data.
                 exn_bind (py_and (py_in ''error'' data)
                             (exn_bind (py_getitem data ''error'') (py_in ''array'')))
                   (\<lambda>found.
                     if found then
                       exn_bind (py_getitem data ''error'') (\<lambda>err.
                         Inr (print_result ''Messages Not Array'' True
                                [Lit ''Got expected error: '', JsonF err], True))
                     else
                       exn_bind (py_get data ''error'' (JStr ''unknown'')) (\<lambda>err.
                         Inr (print_result ''Messages Not Array'' False
                                [Lit ''Unexpected error: '', JsonF err], False))))
             else
               Inr (print_result ''Messages Not Array'' False
                      [Lit ''Expected 400, got '', IntF (status_code response)], False))
         of
           Inr (printed, res) \<Rightarrow> (printed, Inr res)
         | Inl e \<Rightarrow>
             if is_RequestException e then
               (print_result ''Messages Not Array'' False [Lit ''Request failed: '', ExnF e],
                Inr False)
             else ([], Inl e))"

definition test_empty_messages :: scenario where
  "test_empty_messages net url api_key =
     (let payload = JObj [(''threadId'', JStr ''test-thread''), (''messages'', JArr [])]
      in case
           exn_bind (make_request net url api_key payload None) (\<lambda>response.
             if status_code response = 400 then
               exn_bind (resp_json response) (\<lambda>data.
                 exn_bind (py_and (py_in ''error'' data)
                             (exn_bind (py_getitem data ''error'') (py_in ''empty'')))
                   (\<lambda>found.
                     if found then
                       exn_bind (py_getitem data ''error'') (\<lambda>err.
                         Inr (print_result ''Empty Messages'' True
                                [Lit ''Got expected error: '', JsonF err], True))
                     else
                       exn_bind (py_get data ''error'' (JStr ''unknown'')) (\<lambda>err.
                         Inr (print_result ''Empty Messages'' False
                                [Lit ''Unexpected error: '', JsonF err], False))))
             else
               Inr (print_result ''Empty Messages'' False
                      [Lit ''Expected 400, got '', IntF (status_code response)], False))
         of
           Inr (printed, res) \<Rightarrow> (printed, Inr res)
         | Inl e \<Rightarrow>
             if is_RequestException e then
               (print_result ''Empty Messages'' False [Lit ''Request failed: '', ExnF e],
                Inr False)
             else ([], Inl e))"

definition test_missing_api_key :: scenario where
  "test_missing_api_key net url api_key =
     (let payload = JObj [(''threadId'', JStr ''test-thread''),
                          (''messages'', JArr [JObj [(''role'', JStr ''user''),
                             (''content'', JStr ''Hello'')]])];
          headers = [(''Content-Type'', ''application/json'')]
      in case
           exn_bind (requests_post net url headers (JsonBody payload) 30) (\<lambda>response.
             if status_code response = 403 then
               Inr (print_result ''Missing API Key'' True [Lit ''Got expected 403 Forbidden''],
                    True)
             else
               Inr (print_result ''Missing API Key'' False
                      [Lit ''Expected 403, got '', IntF (status_code response)], False))
         of
           Inr (printed, res) \<Rightarrow> (printed, Inr res)
         | Inl e \<Rightarrow>
             if is_RequestException e then
               (print_result ''Missing API Key'' False [Lit ''Request failed: '', ExnF e],
                Inr False)
             else ([], Inl e))"

definition test_invalid_api_key :: scenario where
  "test_invalid_api_key net url api_key =
     (let payload = JObj [(''threadId'', JStr ''test-thread''),
                          (''messages'', JArr [JObj [(''role'', JStr ''user''),
                             (''content'', JStr ''Hello'')]])]
      in case
           exn_bind (make_request net url ''invalid-api-key-12345'' payload None) (\<lambda>response.
             if status_code response = 403 then
               Inr (print_result ''Invalid API Key'' True [Lit ''Got expected 403 Forbidden''],
                    True)
             else
               Inr (print_result ''Invalid API Key'' False
                      [Lit ''Expected 403, got '', IntF (status_code response)], False))
         of
           Inr (printed, res) \<Rightarrow> (printed, Inr res)
         | Inl e \<Rightarrow>
             if is_RequestException e then
               (print_result ''Invalid API Key'' False [Lit ''Request failed: '', ExnF e],
                Inr False)
             else ([], Inl e))"

definition test_cors_preflight :: scenario where
  "test_cors_preflight net url api_key =
     (let headers = [(''Access-Control-Request-Method'', ''POST''),
                     (''Origin'', ''http://localhost:5173'')]
      in case
           exn_bind (requests_options net url headers 30) (\<lambda>response.
             if status_code response = 200 then
               (let cors_origin = headers_get response ''Access-Control-Allow-Origin'' [];
                    cors_methods = headers_get response ''Access-Control-Allow-Methods'' []
                in if cors_origin \<noteq> [] \<and> cors_methods \<noteq> [] then
                     Inr (print_result ''CORS Preflight'' True
                            [Lit ''Origin: '', StrF cors_origin, Lit '', Methods: '',
                             StrF cors_methods], True)
                   else
                     Inr (print_result ''CORS Preflight'' False
                            [Lit ''Missing CORS headers in response''], False))
             else
               Inr (print_result ''CORS Preflight'' False
                      [Lit ''Expected 200, got '', IntF (status_code response)], False))
         of
           Inr (printed, res) \<Rightarrow> (printed, Inr res)
         | Inl e \<Rightarrow>
             if is_RequestException e then
               (print_result ''CORS Preflight'' False [Lit ''Request failed: '', ExnF e],
                Inr False)
             else ([], Inl e))"

subsection \<open>The runner\<close>

record results =
  passed :: nat
  failed :: nat
  details :: "(string \<times> bool) list"

definition tests :: "(string \<times> scenario) list" where
  "tests =
     [(''Success Request'', test_success_request),
      (''Missing Body'', test_missing_body),
      (''Invalid JSON'', test_invalid_json),
      (''Missing threadId'', test_missing_thread_id),
      (''Messages Not Array'', test_messages_not_array),
      (''Empty Messages'', test_empty_messages),
      (''Missing API Key'', test_missing_api_key),
      (''Invalid API Key'', test_invalid_api_key),
      (''CORS Preflight'', test_cors_preflight)]"

text \<open>
  The \<open>for\<close> loop of \<open>run_all_tests\<close> over the list of tests, on the output so far and
  the \<open>results\<close> dict. Its \<open>except Exception\<close> clause takes every exception of the
  model.
\<close>

fun run_loop ::
  "(string \<times> scenario) list \<Rightarrow> transport \<Rightarrow> string \<Rightarrow> string \<Rightarrow> out list \<times> results \<Rightarrow>
     out list \<times> results" where
  "run_loop [] net url api_key st = st"
| "run_loop ((name, test_func) # ts) net url api_key (printed, res) =
     (case test_func net url api_key of
        (shown, Inr ok) \<Rightarrow>
          run_loop ts net url api_key
            (printed @ shown,
             (if ok then res\<lparr>passed := passed res + 1\<rparr> else res\<lparr>failed := failed res + 1\<rparr>)
               \<lparr>details := details res @ [(name, ok)]\<rparr>)
      | (shown, Inl e) \<Rightarrow>
          run_loop ts net url api_key
            (printed @ shown @ print_result name False [Lit ''Unexpected error: '', ExnF e],
             res\<lparr>failed := failed res + 1, details := details res @ [(name, False)]\<rparr>))"

definition run_all_tests :: "transport \<Rightarrow> string \<Rightarrow> string \<Rightarrow> out list \<times> results" where
  "run_all_tests net url api_key =
     run_loop tests net url api_key ([], \<lparr>passed = 0, failed = 0, details = []\<rparr>)"

subsection \<open>The entry point\<close>

text \<open>The parsed command line: \<open>--env\<close>, \<open>--verbose\<close>, \<open>--test\<close>.\<close>

record args =
  args_env :: string
  args_verbose :: bool
  args_test :: string

text \<open>
  How the process ends: \<open>sys.exit(n)\<close>, or an exception that leaves \<open>main\<close>, on which
  the interpreter prints the traceback and exits with status 1.
\<close>

datatype exit_status = Exit nat | Uncaught exn

fun exit_code :: "exit_status \<Rightarrow> nat" where
  "exit_code (Exit n) = n"
| "exit_code (Uncaught e) = 1"

definition test_map :: "(string \<times> scenario) list" where
  "test_map =
     [(''success'', test_success_request),
      (''missing-body'', test_missing_body),
      (''invalid-json'', test_invalid_json),
      (''missing-threadid'', test_missing_thread_id),
      (''messages-not-array'', test_messages_not_array),
      (''empty-messages'', test_empty_messages),
      (''missing-key'', test_missing_api_key),
      (''invalid-key'', test_invalid_api_key),
      (''cors'', test_cors_preflight)]"

definition main :: "environ \<Rightarrow> transport \<Rightarrow> args \<Rightarrow> out list \<times> exit_status" where
  "main environ net a =
     (case exn_bind (get_api_key environ) (\<lambda>api_key.
             exn_bind (get_api_url environ (args_env a)) (\<lambda>url. Inr (api_key, url)))
      of
        Inl e \<Rightarrow> if is_EnvironmentError e then ([ConfigError e], Exit 1) else ([], Uncaught e)
      | Inr (api_key, url) \<Rightarrow>
          if args_test a = ''all'' then
            (case run_all_tests net url api_key of
               (printed, res) \<Rightarrow>
                 if failed res > 0 then
                   (printed @ [Summary (passed res) (failed res) (passed res + failed res)] @
                      map FailedTest (map fst (filter (\<lambda>(name, ok). \<not> ok) (details res))),
                    Exit 1)
                 else
                   (printed @ [Summary (passed res) (failed res) (passed res + failed res)] @
                      [AllPassed],
                    Exit 0))
          else
            (case map_of test_map (args_test a) of
               None \<Rightarrow> ([], Uncaught (KeyError (args_test a)))
             | Some test_func \<Rightarrow>
                 (case test_func net url api_key of
                    (printed, Inl e) \<Rightarrow> (printed, Uncaught e)
                  | (printed, Inr ok) \<Rightarrow> (printed, Exit (if ok then 0 else 1)))))"

subsection \<open>A mock server\<close>

text \<open>
  A transport for the concrete runs below: an endpoint that enforces the contract the
  script tests, with the credential \<open>secret\<close>.
\<close>

definition json_response :: "int \<Rightarrow> json \<Rightarrow> response" where
  "json_response code v = \<lparr>status_code = code, resp_json = Inr v, resp_headers = Map.empty\<rparr>"

definition error_response :: "int \<Rightarrow> string \<Rightarrow> response" where
  "error_response code msg = json_response code (JObj [(''error'', JStr msg)])"

definition mock_server :: transport where
  "mock_server rq =
     (if req_verb rq = ''OPTIONS'' then
        Inr \<lparr>status_code = 200, resp_json = Inl (RequestsJSONDecodeError ''Expecting value''),
             resp_headers = [''Access-Control-Allow-Origin'' \<mapsto> ''*'',
                             ''Access-Control-Allow-Methods'' \<mapsto> ''POST, OPTIONS'']\<rparr>
      else if map_of (req_headers rq) ''X-Api-Key'' \<noteq> Some ''secret'' then
        Inr (json_response 403 (JObj [(''message'', JStr ''Forbidden'')]))
      else
        (case req_body rq of
           NoBody \<Rightarrow> Inr (error_response 400 ''Request body is required'')
         | RawData s \<Rightarrow>
             if s = [] then Inr (error_response 400 ''Request body is required'')
             else Inr (error_response 400 ''Invalid JSON in request body'')
         | JsonBody v \<Rightarrow>
             (case v of
                JObj kvs \<Rightarrow>
                  (case map_of kvs ''threadId'' of
                     None \<Rightarrow> Inr (error_response 400 ''threadId is required'')
                   | Some t \<Rightarrow>
                       (case map_of kvs ''messages'' of
                          Some (JArr ms) \<Rightarrow>
                            if ms = [] then
                              Inr (error_response 400 ''messages must not be empty'')
                            else
                              Inr (json_response 200
                                     (JObj [(''assistant'',
                                             JObj [(''content'', JStr ''Hello test'')])]))
                        | _ \<Rightarrow> Inr (error_response 400 ''messages must be an array'')))
              | _ \<Rightarrow> Inr (error_response 400 ''Invalid JSON in request body''))))"

definition mock_environ :: environ where
  "mock_environ = [''API_KEY'' \<mapsto> ''secret'', ''TEST_API_URL'' \<mapsto> ''http://localhost:3000/chat'']"

definition garbled_server :: transport where
  "garbled_server rq =
     (if req_body rq = RawData [] then Inr (json_response 400 JNull) else mock_server rq)"

subsection \<open>Reading verdicts\<close>



definition verdict_of ::
  "transport \<Rightarrow> string \<Rightarrow> string \<Rightarrow> string \<times> scenario \<Rightarrow> string \<times> bool" where
  "verdict_of net url api_key t =
     (case t of (name, test_func) \<Rightarrow>
        (name, case snd (test_func net url api_key) of Inr ok \<Rightarrow> ok | Inl e \<Rightarrow> False))"

subsection \<open>Reading details, and transports that see the timeout\<close>



subsection \<open>The validation rule as the specification words it\<close>


section \<open>Properties\<close>

subsection \<open>Basic facts\<close>

lemma exn_bind_simps:
  "exn_bind (Inl e) f = Inl e"
  "exn_bind (Inr x) f = f x"
  by (simp_all add: exn_bind_def)

lemmas call_defs = make_request_def make_request_headers_def requests_post_def
  requests_options_def print_result_def py_and_def headers_get_def exn_bind_simps

lemma str_contains_iff: "str_contains sub s \<longleftrightarrow> (\<exists>p q. s = p @ sub @ q)"
proof (induction s)
  case Nil
  then show ?case by auto
next
  case (Cons c cs)
  have "(\<exists>p q. c # cs = p @ sub @ q) \<longleftrightarrow> prefix sub (c # cs) \<or> (\<exists>p q. cs = p @ sub @ q)"
  proof
    assume "\<exists>p q. c # cs = p @ sub @ q"
    then obtain p q where pq: "c # cs = p @ sub @ q" by blast
    show "prefix sub (c # cs) \<or> (\<exists>p q. cs = p @ sub @ q)"
    proof (cases p)
      case Nil
      with pq show ?thesis by (auto simp: prefix_def)
    next
      case (Cons a p')
      with pq have "cs = p' @ sub @ q" by simp
      then show ?thesis by blast
    qed
  next
    assume "prefix sub (c # cs) \<or> (\<exists>p q. cs = p @ sub @ q)"
    then show "\<exists>p q. c # cs = p @ sub @ q"
    proof
      assume "prefix sub (c # cs)"
      then obtain q where "c # cs = sub @ q" by (auto simp: prefix_def)
      then have "c # cs = [] @ sub @ q" by simp
      then show ?thesis by blast
    next
      assume "\<exists>p q. cs = p @ sub @ q"
      then obtain p q where "cs = p @ sub @ q" by blast
      then have "c # cs = (c # p) @ sub @ q" by simp
      then show ?thesis by blast
    qed
  qed
  with Cons show ?case by simp
qed

subsection \<open>Every scenario function leaves one verdict line, or raises and leaves none\<close>











subsection \<open>The loop of the runner\<close>



lemma run_loop_details:
  "details (snd (run_loop ts net url k st)) = details (snd st) @ map (verdict_of net url k) ts"
  by (induction ts net url k st rule: run_loop.induct)
     (auto simp: verdict_of_def split: prod.splits sum.splits)


lemma run_loop_failed:
  "failed (snd (run_loop ts net url k st))
     = failed (snd st) + length (filter (\<lambda>t. \<not> snd (verdict_of net url k t)) ts)"
  by (induction ts net url k st rule: run_loop.induct)
     (auto simp: verdict_of_def split: prod.splits sum.splits)



lemma run_all_tests_details:
  "details (snd (run_all_tests net url k)) = map (verdict_of net url k) tests"
  by (simp add: run_all_tests_def run_loop_details)



subsection \<open>Configuration and the entry point\<close>

lemma get_api_key_Inl_iff:
  "(\<exists>e. get_api_key environ = Inl e) \<longleftrightarrow> environ ''API_KEY'' = None \<or> environ ''API_KEY'' = Some []"
  by (auto simp: get_api_key_def split: option.splits)

lemma get_api_key_cases:
  "(\<exists>m. get_api_key environ = Inl (EnvironmentError m)) \<or> (\<exists>k. get_api_key environ = Inr k)"
  by (auto simp: get_api_key_def split: option.splits)

lemma get_api_url_cases:
  "(\<exists>m. get_api_url environ env = Inl (EnvironmentError m)) \<or> (\<exists>u. get_api_url environ env = Inr u)"
  by (auto simp: get_api_url_def split: option.splits)

lemma get_api_url_Inl_iff:
  "(\<exists>e. get_api_url environ env = Inl e) \<longleftrightarrow>
     environ (if env = ''prod'' then ''PROD_API_URL'' else ''TEST_API_URL'') = None \<or>
     environ (if env = ''prod'' then ''PROD_API_URL'' else ''TEST_API_URL'') = Some []"
  by (auto simp: get_api_url_def split: option.splits)

lemma main_no_key:
  "get_api_key environ = Inl (EnvironmentError m) \<Longrightarrow>
     main environ net a = ([ConfigError (EnvironmentError m)], Exit 1)"
  by (simp add: main_def exn_bind_simps)

lemma main_no_url:
  "get_api_key environ = Inr k \<Longrightarrow> get_api_url environ (args_env a) = Inl (EnvironmentError m) \<Longrightarrow>
     main environ net a = ([ConfigError (EnvironmentError m)], Exit 1)"
  by (simp add: main_def exn_bind_simps)

lemma snd_verdict_of: "snd (verdict_of net url k t) \<longleftrightarrow> snd (snd t net url k) = Inr True"
  by (cases t) (auto simp: verdict_of_def split: sum.splits)

lemma failed_zero_iff:
  "failed (snd (run_all_tests net url k)) = 0 \<longleftrightarrow>
     list_all (\<lambda>t. snd (snd t net url k) = Inr True) tests"
  by (simp add: run_all_tests_def run_loop_failed snd_verdict_of list_all_iff filter_empty_conv)

lemma main_all:
  "get_api_key environ = Inr k \<Longrightarrow> get_api_url environ (args_env a) = Inr u \<Longrightarrow>
   args_test a = ''all'' \<Longrightarrow>
     exit_code (snd (main environ net a)) = (if failed (snd (run_all_tests net u k)) = 0 then 0 else 1)"
  by (simp add: main_def exn_bind_simps split: prod.splits)

lemma main_single:
  "get_api_key environ = Inr k \<Longrightarrow> get_api_url environ (args_env a) = Inr u \<Longrightarrow>
   args_test a \<noteq> ''all'' \<Longrightarrow>
     exit_code (snd (main environ net a)) =
       (case map_of test_map (args_test a) of
          None \<Rightarrow> 1
        | Some f \<Rightarrow> if snd (f net u k) = Inr True then 0 else 1)"
  by (auto simp: main_def exn_bind_simps split: prod.splits option.splits sum.splits)

subsection \<open>Concrete runs against the mock servers\<close>

lemmas mock_defs = mock_server_def garbled_server_def json_response_def error_response_def

lemma mock_success: "snd (test_success_request mock_server ''http://localhost:3000/chat'' ''secret'') = Inr True"
  by (simp add: test_success_request_def call_defs mock_defs)
lemma mock_missing_body: "snd (test_missing_body mock_server ''http://localhost:3000/chat'' ''secret'') = Inr True"
  by (simp add: test_missing_body_def call_defs mock_defs)
lemma mock_invalid_json: "snd (test_invalid_json mock_server ''http://localhost:3000/chat'' ''secret'') = Inr True"
  by (simp add: test_invalid_json_def call_defs mock_defs)
lemma mock_missing_thread_id: "snd (test_missing_thread_id mock_server ''http://localhost:3000/chat'' ''secret'') = Inr True"
  by (simp add: test_missing_thread_id_def call_defs mock_defs)
lemma mock_messages_not_array: "snd (test_messages_not_array mock_server ''http://localhost:3000/chat'' ''secret'') = Inr True"
  by (simp add: test_messages_not_array_def call_defs mock_defs)
lemma mock_empty_messages: "snd (test_empty_messages mock_server ''http://localhost:3000/chat'' ''secret'') = Inr True"
  by (simp add: test_empty_messages_def call_defs mock_defs)
lemma mock_missing_api_key: "snd (test_missing_api_key mock_server ''http://localhost:3000/chat'' ''secret'') = Inr True"
  by (simp add: test_missing_api_key_def call_defs mock_defs)
lemma mock_invalid_api_key: "snd (test_invalid_api_key mock_server ''http://localhost:3000/chat'' ''secret'') = Inr True"
  by (simp add: test_invalid_api_key_def call_defs mock_defs)
lemma mock_cors_preflight: "snd (test_cors_preflight mock_server ''http://localhost:3000/chat'' ''secret'') = Inr True"
  by (simp add: test_cors_preflight_def call_defs mock_defs)

lemmas mock_runs = mock_success mock_missing_body mock_invalid_json mock_missing_thread_id
  mock_messages_not_array mock_empty_messages mock_missing_api_key mock_invalid_api_key
  mock_cors_preflight

lemma garbled_missing_body: "test_missing_body garbled_server ''http://localhost:3000/chat'' ''secret'' = ([], Inl TypeError)"
  by (simp add: test_missing_body_def call_defs mock_defs)


subsection \<open>Dictionaries\<close>

lemma py_in_dict_key: "py_in k (JObj kvs) = Inr (map_of kvs k \<noteq> None)"
  by (simp add: map_of_eq_None_iff)



lemma py_getitem_Inr_iff:
  "py_getitem d k = Inr v \<longleftrightarrow> (\<exists>kvs. d = JObj kvs \<and> map_of kvs k = Some v)"
  by (cases d) (auto split: option.splits)

subsection \<open>When a scenario function returns \<open>True\<close>\<close>

lemmas verdict_simps = exn_bind_def py_getitem_Inr_iff py_in_dict_key

lemma py_in_InlD: "py_in k v = Inl e \<Longrightarrow> e = TypeError"
  by (cases v) auto









lemma success_verdict:
  "snd (test_success_request net url api_key) = Inr True \<longleftrightarrow>
     (\<exists>r kvs akvs c x. net \<lparr>req_verb = ''POST'', req_url = url,
            req_headers = [(''Content-Type'', ''application/json''), (''X-Api-Key'', api_key)],
            req_body = JsonBody (JObj [(''threadId'', JStr ''test-thread-001''),
                          (''messages'', JArr [JObj [(''role'', JStr ''user''),
                             (''content'', JStr ''Say 'Hello test' and nothing else.'')]])]),
            req_timeout = 30\<rparr> = Inr r \<and>
        status_code r = 200 \<and> resp_json r = Inr (JObj kvs) \<and>
        map_of kvs ''assistant'' = Some (JObj akvs) \<and> map_of akvs ''content'' = Some c \<and>
        py_slice_to 50 c = Inr x)"
  unfolding test_success_request_def call_defs Let_def
  by (auto simp: verdict_simps simp del: py_in.simps(3) split: sum.splits if_splits)

subsection \<open>Timeouts\<close>







subsection \<open>The requests of a run\<close>

text \<open>
  The nine requests of a full run, in registry order, are pairwise different whatever the
  URL and the credential: this is what lets a function of the request stand for the
  transport.
\<close>

lemma scenario_requests_distinct:
  "distinct
     [\<lparr>req_verb = ''POST'', req_url = url,
        req_headers = [(''Content-Type'', ''application/json''), (''X-Api-Key'', api_key)],
        req_body = JsonBody (JObj [(''threadId'', JStr ''test-thread-001''),
                      (''messages'', JArr [JObj [(''role'', JStr ''user''),
                         (''content'', JStr ''Say 'Hello test' and nothing else.'')]])]),
        req_timeout = 30\<rparr>,
      \<lparr>req_verb = ''POST'', req_url = url,
        req_headers = [(''Content-Type'', ''application/json''), (''X-Api-Key'', api_key)],
        req_body = RawData [], req_timeout = 30\<rparr>,
      \<lparr>req_verb = ''POST'', req_url = url,
        req_headers = [(''Content-Type'', ''application/json''), (''X-Api-Key'', api_key)],
        req_body = RawData ''{invalid json'', req_timeout = 30\<rparr>,
      \<lparr>req_verb = ''POST'', req_url = url,
        req_headers = [(''Content-Type'', ''application/json''), (''X-Api-Key'', api_key)],
        req_body = JsonBody (JObj [(''messages'', JArr [JObj [(''role'', JStr ''user''),
                         (''content'', JStr ''Hello'')]])]),
        req_timeout = 30\<rparr>,
      \<lparr>req_verb = ''POST'', req_url = url,
        req_headers = [(''Content-Type'', ''application/json''), (''X-Api-Key'', api_key)],
        req_body = JsonBody (JObj [(''threadId'', JStr ''test-thread''),
                      (''messages'', JStr ''not an array'')]),
        req_timeout = 30\<rparr>,
      \<lparr>req_verb = ''POST'', req_url = url,
        req_headers = [(''Content-Type'', ''application/json''), (''X-Api-Key'', api_key)],
        req_body = JsonBody (JObj [(''threadId'', JStr ''test-thread''), (''messages'', JArr [])]),
        req_timeout = 30\<rparr>,
      \<lparr>req_verb = ''POST'', req_url = url,
        req_headers = [(''Content-Type'', ''application/json'')],
        req_body = JsonBody (JObj [(''threadId'', JStr ''test-thread''),
                      (''messages'', JArr [JObj [(''role'', JStr ''user''),
                         (''content'', JStr ''Hello'')]])]),
        req_timeout = 30\<rparr>,
      \<lparr>req_verb = ''POST'', req_url = url,
        req_headers = [(''Content-Type'', ''application/json''),
                       (''X-Api-Key'', ''invalid-api-key-12345'')],
        req_body = JsonBody (JObj [(''threadId'', JStr ''test-thread''),
                      (''messages'', JArr [JObj [(''role'', JStr ''user''),
                         (''content'', JStr ''Hello'')]])]),
        req_timeout = 30\<rparr>,
      \<lparr>req_verb = ''OPTIONS'', req_url = url,
        req_headers = [(''Access-Control-Request-Method'', ''POST''),
                       (''Origin'', ''http://localhost:5173'')],
        req_body = NoBody, req_timeout = 30\<rparr>]"
  by simp

subsection \<open>Claims\<close>



text \<open>
  C10. \<open>get_api_url\<close> reads \<open>PROD_API_URL\<close> when the environment flag is \<open>prod\<close> and
  \<open>TEST_API_URL\<close> for every other flag. It returns the value of that variable when it
  is set and not empty, and raises the configuration error (\<open>EnvironmentError\<close>)
  exactly when it is unset or empty; no other variable is read.
\<close>

theorem get_api_url_source:
  "(get_api_url environ env = Inr u \<longleftrightarrow>
      environ (if env = ''prod'' then ''PROD_API_URL'' else ''TEST_API_URL'') = Some u \<and> u \<noteq> [])
   \<and> ((\<exists>e. get_api_url environ env = Inl e) \<longleftrightarrow>
      environ (if env = ''prod'' then ''PROD_API_URL'' else ''TEST_API_URL'') = None \<or>
      environ (if env = ''prod'' then ''PROD_API_URL'' else ''TEST_API_URL'') = Some [])
   \<and> ((\<exists>m. get_api_url environ env = Inl (EnvironmentError m)) \<or>
      (\<exists>v. get_api_url environ env = Inr v))
   \<and> get_api_url environ env =
       get_api_url (\<lambda>name. if name = (if env = ''prod'' then ''PROD_API_URL'' else ''TEST_API_URL'')
                            then environ name else other name) env"
  by (auto simp: get_api_url_def split: option.splits)



text \<open>
  C7. The exit code of the process is 0 exactly when the credential and the base URL are
  configured and every selected scenario returned \<open>True\<close>: each of the nine tests of
  the registry when \<open>--test\<close> is \<open>all\<close>, the one named test otherwise (the table of
  \<open>main\<close> holds the same nine functions as the registry). In every other case the exit
  code is 1. When the credential or the selected URL variable is unset or empty, \<open>main\<close>
  prints the configuration error and nothing else and exits with 1, whatever the
  transport would answer: no scenario runs.
\<close>

theorem exit_code_contract:
  "(exit_code (snd (main environ net a)) = 0 \<longleftrightarrow>
      (\<exists>api_key url. get_api_key environ = Inr api_key \<and>
         get_api_url environ (args_env a) = Inr url \<and>
         (if args_test a = ''all'' then
            list_all (\<lambda>t. snd (snd t net url api_key) = Inr True) tests
          else
            (\<exists>f. map_of test_map (args_test a) = Some f \<and> snd (f net url api_key) = Inr True))))
   \<and> (exit_code (snd (main environ net a)) = 0 \<or> exit_code (snd (main environ net a)) = 1)
   \<and> (environ ''API_KEY'' = None \<or> environ ''API_KEY'' = Some [] \<or>
       environ (if args_env a = ''prod'' then ''PROD_API_URL'' else ''TEST_API_URL'') = None \<or>
       environ (if args_env a = ''prod'' then ''PROD_API_URL'' else ''TEST_API_URL'') = Some []
       \<longrightarrow> (\<exists>m. main environ net a = ([ConfigError (EnvironmentError m)], Exit 1)))
   \<and> map snd test_map = map snd tests \<and> length tests = 9"
proof -
  let ?src = "if args_env a = ''prod'' then ''PROD_API_URL'' else ''TEST_API_URL''"
  let ?ok = "\<exists>api_key url. get_api_key environ = Inr api_key \<and>
         get_api_url environ (args_env a) = Inr url \<and>
         (if args_test a = ''all'' then
            list_all (\<lambda>t. snd (snd t net url api_key) = Inr True) tests
          else
            (\<exists>f. map_of test_map (args_test a) = Some f \<and> snd (f net url api_key) = Inr True))"
  let ?code = "exit_code (snd (main environ net a))"
  have bad: "\<exists>m. main environ net a = ([ConfigError (EnvironmentError m)], Exit 1)"
    if "(\<exists>e. get_api_key environ = Inl e) \<or> (\<exists>e. get_api_url environ (args_env a) = Inl e)"
  proof (cases "\<exists>k. get_api_key environ = Inr k")
    case False
    then obtain m where "get_api_key environ = Inl (EnvironmentError m)"
      using get_api_key_cases [of environ] by blast
    then show ?thesis using main_no_key by blast
  next
    case True
    then obtain k where k: "get_api_key environ = Inr k" by blast
    with that obtain e where "get_api_url environ (args_env a) = Inl e" by auto
    then obtain m where "get_api_url environ (args_env a) = Inl (EnvironmentError m)"
      using get_api_url_cases [of environ "args_env a"] by auto
    with k show ?thesis using main_no_url by blast
  qed
  have good: "?code = (if (if args_test a = ''all'' then
            list_all (\<lambda>t. snd (snd t net u k) = Inr True) tests
          else
            (\<exists>f. map_of test_map (args_test a) = Some f \<and> snd (f net u k) = Inr True)) then 0 else 1)"
    if "get_api_key environ = Inr k" "get_api_url environ (args_env a) = Inr u" for k u
  proof (cases "args_test a = ''all''")
    case True
    then show ?thesis using main_all [OF that True, of net] by (simp add: failed_zero_iff)
  next
    case False
    then show ?thesis using main_single [OF that False, of net] by (auto split: option.splits)
  qed
  have c1: "?code = 0 \<longleftrightarrow> ?ok"
  proof (cases "(\<exists>e. get_api_key environ = Inl e) \<or> (\<exists>e. get_api_url environ (args_env a) = Inl e)")
    case True
    from bad [OF True] have "?code = 1" by auto
    moreover from True have "\<not> ?ok" by auto
    ultimately show ?thesis by simp
  next
    case False
    then obtain k u where ku: "get_api_key environ = Inr k" "get_api_url environ (args_env a) = Inr u"
      using get_api_key_cases [of environ] get_api_url_cases [of environ "args_env a"] by auto
    show ?thesis using good [OF ku] ku by (auto split: if_splits)
  qed
  have c2: "?code = 0 \<or> ?code = 1"
  proof (cases "(\<exists>e. get_api_key environ = Inl e) \<or> (\<exists>e. get_api_url environ (args_env a) = Inl e)")
    case True
    from bad [OF True] show ?thesis by auto
  next
    case False
    then obtain k u where ku: "get_api_key environ = Inr k" "get_api_url environ (args_env a) = Inr u"
      using get_api_key_cases [of environ] get_api_url_cases [of environ "args_env a"] by auto
    show ?thesis using good [OF ku] by (simp split: if_splits)
  qed
  have c3: "environ ''API_KEY'' = None \<or> environ ''API_KEY'' = Some [] \<or>
       environ ?src = None \<or> environ ?src = Some []
       \<longrightarrow> (\<exists>m. main environ net a = ([ConfigError (EnvironmentError m)], Exit 1))"
    using bad get_api_key_Inl_iff [of environ] get_api_url_Inl_iff [of environ "args_env a"]
    by blast
  have c4: "map snd test_map = map snd tests \<and> length tests = 9"
    by (simp add: test_map_def tests_def)
  from c1 c2 c3 c4 show ?thesis by blast
qed

theorem exit_code_contract_witness:
  "exit_code (snd (main mock_environ mock_server
       \<lparr>args_env = ''test'', args_verbose = False, args_test = ''all''\<rparr>)) = 0
   \<and> exit_code (snd (main mock_environ mock_server
       \<lparr>args_env = ''test'', args_verbose = False, args_test = ''missing-key''\<rparr>)) = 0
   \<and> exit_code (snd (main mock_environ garbled_server
       \<lparr>args_env = ''test'', args_verbose = False, args_test = ''all''\<rparr>)) = 1
   \<and> (\<exists>m. main (mock_environ(''API_KEY'' := None)) mock_server
       \<lparr>args_env = ''test'', args_verbose = False, args_test = ''all''\<rparr>
         = ([ConfigError (EnvironmentError m)], Exit 1))"
proof -
  let ?U = "''http://localhost:3000/chat''"
  have key: "get_api_key mock_environ = Inr ''secret''"
    by (simp add: get_api_key_def mock_environ_def)
  have url: "get_api_url mock_environ ''test'' = Inr ?U"
    by (simp add: get_api_url_def mock_environ_def)
  have all_pass: "list_all (\<lambda>t. snd (snd t mock_server ?U ''secret'') = Inr True) tests"
    unfolding tests_def by (simp add: mock_runs)
  have one: "map_of test_map ''missing-key'' = Some test_missing_api_key"
    by (simp add: test_map_def)
  have not_all: "\<not> list_all (\<lambda>t. snd (snd t garbled_server u k) = Inr True) tests"
    if "get_api_key mock_environ = Inr k" "get_api_url mock_environ ''test'' = Inr u" for u k
  proof -
    from that key url have "k = ''secret''" "u = ?U" by simp_all
    then show ?thesis unfolding tests_def by (simp add: garbled_missing_body)
  qed
  have 1: "exit_code (snd (main mock_environ mock_server
       \<lparr>args_env = ''test'', args_verbose = False, args_test = ''all''\<rparr>)) = 0"
    using exit_code_contract [of mock_environ mock_server
       "\<lparr>args_env = ''test'', args_verbose = False, args_test = ''all''\<rparr>"] key url all_pass
    by simp
  have 2: "exit_code (snd (main mock_environ mock_server
       \<lparr>args_env = ''test'', args_verbose = False, args_test = ''missing-key''\<rparr>)) = 0"
    using exit_code_contract [of mock_environ mock_server
       "\<lparr>args_env = ''test'', args_verbose = False, args_test = ''missing-key''\<rparr>"] key url one
       mock_missing_api_key
    by simp
  have 3: "exit_code (snd (main mock_environ garbled_server
       \<lparr>args_env = ''test'', args_verbose = False, args_test = ''all''\<rparr>)) = 1"
    using exit_code_contract [of mock_environ garbled_server
       "\<lparr>args_env = ''test'', args_verbose = False, args_test = ''all''\<rparr>"] not_all
    by auto
  have 4: "\<exists>m. main (mock_environ(''API_KEY'' := None)) mock_server
       \<lparr>args_env = ''test'', args_verbose = False, args_test = ''all''\<rparr>
         = ([ConfigError (EnvironmentError m)], Exit 1)"
    using exit_code_contract [of "mock_environ(''API_KEY'' := None)" mock_server
       "\<lparr>args_env = ''test'', args_verbose = False, args_test = ''all''\<rparr>"]
    by simp
  from 1 2 3 4 show ?thesis by blast
qed








text \<open>
  C3 fails on the code. On a response with status 200 and the body
  \<open>{"assistant": {"content": null}}\<close> the key path \<open>assistant.content\<close> is present,
  and the function enters the branch that reports the pass; there the excerpt
  \<open>content[:50]\<close> for the detail raises a \<open>TypeError\<close>, which none of the function's
  \<open>except\<close> clauses takes. No verdict is printed by the function: in single mode the
  exception leaves \<open>main\<close>, in a full run the runner records the scenario as failed.
\<close>

theorem success_request_raises_on_null_content:
  "test_success_request
     (\<lambda>rq. Inr (json_response 200 (JObj [(''assistant'', JObj [(''content'', JNull)])])))
     url api_key = ([], Inl TypeError)
   \<and> snd (main mock_environ
       (\<lambda>rq. Inr (json_response 200 (JObj [(''assistant'', JObj [(''content'', JNull)])])))
       \<lparr>args_env = ''test'', args_verbose = False, args_test = ''success''\<rparr>) = Uncaught TypeError
   \<and> hd (details (snd (run_all_tests
       (\<lambda>rq. Inr (json_response 200 (JObj [(''assistant'', JObj [(''content'', JNull)])])))
       url api_key))) = (''Success Request'', False)"
proof -
  let ?net = "\<lambda>rq::request. (Inr (json_response 200
                 (JObj [(''assistant'', JObj [(''content'', JNull)])])) :: exn + response)"
  have 1: "test_success_request ?net u k = ([], Inl TypeError)" for u k
    by (simp add: test_success_request_def call_defs json_response_def)
  have 2: "snd (main mock_environ ?net
       \<lparr>args_env = ''test'', args_verbose = False, args_test = ''success''\<rparr>) = Uncaught TypeError"
    by (simp add: main_def exn_bind_simps get_api_key_def get_api_url_def mock_environ_def
        test_map_def 1)
  have 3: "hd (details (snd (run_all_tests ?net url api_key))) = (''Success Request'', False)"
    by (simp add: run_all_tests_details tests_def verdict_of_def 1)
  from 1 2 3 show ?thesis by simp
qed



end
